theory Spec2Isabelle
  imports Main
begin

section \<open>Data model (types.ts and the component state of App.tsx)\<close>

text \<open>
  The enum \<^verbatim>\<open>AppStatus\<close> of types.ts. The member \<^verbatim>\<open>ERROR\<close> is declared there and
  is never assigned by App.tsx.
\<close>

datatype AppStatus = IDLE | ANALYZING | REVIEW | GENERATING | COMPLETED | ERROR

text \<open>
  The interface \<^verbatim>\<open>AudioFile\<close>. The field \<^verbatim>\<open>base64\<close> is element 1 of the data URL
  split at commas, which is \<^verbatim>\<open>undefined\<close> (here \<open>None\<close>) for a data URL without a
  comma.
\<close>

record AudioFile =
  af_name :: string
  af_type :: string
  af_base64 :: "string option"
  af_url :: string

text \<open>What \<^verbatim>\<open>handleFileChange\<close> reads of a browser \<^verbatim>\<open>File\<close>.\<close>

record File =
  file_name :: string
  file_type :: string
  file_size :: nat

text \<open>
  The six \<^verbatim>\<open>useState\<close> cells of the component, followed by a log of the calls the
  component makes to the outside: files handed to \<^verbatim>\<open>reader.readAsDataURL\<close>, argument
  pairs of \<^verbatim>\<open>analyzeAudioForPrompt\<close>, prompts handed to \<^verbatim>\<open>generateVeoVideo\<close> (the
  jobs submitted to the video job client, one entry for each call of that function;
  what the client then sends to the service is described with \<open>generateVeoVideo\<close>), and
  URLs passed to \<^verbatim>\<open>URL.revokeObjectURL\<close>. The value of the DOM file input, which
  \<^verbatim>\<open>handleReset\<close> also blanks, is not part of the model.
\<close>

record world =
  status :: AppStatus
  audioFile :: "AudioFile option"
  generatedPrompt :: string
  videoUrl :: "string option"
  error :: "string option"
  keySelected :: bool
  fileReads :: "File list"
  analysisCalls :: "(string option \<times> string) list"
  submittedJobs :: "string list"
  revokedUrls :: "string list"

definition initial :: world where
  "initial = \<lparr>status = IDLE, audioFile = None, generatedPrompt = [], videoUrl = None,
     error = None, keySelected = False, fileReads = [], analysisCalls = [],
     submittedJobs = [], revokedUrls = []\<rparr>"

section \<open>JavaScript helpers\<close>

text \<open>\<^verbatim>\<open>a || b\<close> on a possibly undefined string: the empty string is falsy.\<close>

definition or_else :: "string option \<Rightarrow> string \<Rightarrow> string" where
  "or_else a b = (case a of None \<Rightarrow> b | Some s \<Rightarrow> if s = [] then b else s)"

text \<open>\<^verbatim>\<open>s.split(c)\<close> for a one-character separator.\<close>

fun split_at :: "char \<Rightarrow> string \<Rightarrow> string list" where
  "split_at c [] = [[]]"
| "split_at c (x # xs) =
     (if x = c then [] # split_at c xs
      else (case split_at c xs of [] \<Rightarrow> [[x]] | y # ys \<Rightarrow> (x # y) # ys))"

text \<open>\<^verbatim>\<open>xs[i]\<close>: \<^verbatim>\<open>undefined\<close> out of range.\<close>

definition index_opt :: "'a list \<Rightarrow> nat \<Rightarrow> 'a option" where
  "index_opt xs i = (if i < length xs then Some (xs ! i) else None)"

section \<open>geminiService.ts: the analysis client\<close>

definition fallbackPrompt :: string where
  "fallbackPrompt = ''A futuristic abstract scene pulsing with neon colors.''"

text \<open>
  \<^verbatim>\<open>analyzeAudioForPrompt\<close>, as a function of what \<^verbatim>\<open>ai.models.generateContent\<close>
  does: \<open>Inl e\<close> when it throws \<open>e\<close>, \<open>Inr t\<close> when it resolves with a response whose
  \<^verbatim>\<open>text\<close> is \<open>t\<close> (\<open>None\<close> for \<^verbatim>\<open>undefined\<close>). The result is \<open>Inl\<close> the message of
  the thrown \<^verbatim>\<open>Error\<close>, or \<open>Inr\<close> the returned prompt.
\<close>

definition analyzeAudioForPrompt :: "string + string option \<Rightarrow> string + string" where
  "analyzeAudioForPrompt r =
     (case r of
        Inr t \<Rightarrow> Inr (or_else t fallbackPrompt)
      | Inl e \<Rightarrow> Inl ''Failed to analyze audio content.'')"

section \<open>geminiService.ts: the video job client\<close>

text \<open>
  The part of an operation that \<^verbatim>\<open>generateVeoVideo\<close> reads:
  \<^verbatim>\<open>operation.done\<close> and \<^verbatim>\<open>operation.response?.generatedVideos?.[0]?.video?.uri\<close>.
  Every link of the optional chain may be absent.
\<close>

record Video =
  vid_uri :: "string option"

record GeneratedVideo =
  gv_video :: "Video option"

record VideosResponse =
  generatedVideos :: "GeneratedVideo list option"

record Operation =
  op_done :: bool
  op_response :: "VideosResponse option"

definition videoUriOf :: "Operation \<Rightarrow> string option" where
  "videoUriOf operation =
     (case op_response operation of
        None \<Rightarrow> None
      | Some r \<Rightarrow>
          (case generatedVideos r of
             None \<Rightarrow> None
           | Some vs \<Rightarrow>
               (case index_opt vs 0 of
                  None \<Rightarrow> None
                | Some g \<Rightarrow> (case gv_video g of None \<Rightarrow> None | Some v \<Rightarrow> vid_uri v))))"

text \<open>
  What \<^verbatim>\<open>fetch\<close> does: it throws, or it resolves with a response (\<^verbatim>\<open>ok\<close>,
  \<^verbatim>\<open>statusText\<close>) whose \<^verbatim>\<open>blob()\<close> throws (\<open>Inl\<close>) or yields a blob for which
  \<^verbatim>\<open>URL.createObjectURL\<close> returns the given string (\<open>Inr\<close>).
\<close>

datatype FetchOutcome = FetchThrows string | FetchResponse bool string "string + string"

text \<open>
  The services behind the client: the outcome of \<^verbatim>\<open>ai.models.generateVideos\<close>, the
  outcome of the \<open>i\<close>-th call of \<^verbatim>\<open>ai.operations.getVideosOperation\<close> (\<open>Inl\<close> when
  it throws), the outcome of \<^verbatim>\<open>fetch\<close> on a URL, and \<^verbatim>\<open>process.env.API_KEY\<close>.
\<close>

record VeoService =
  submitOutcome :: "string + Operation"
  pollOutcome :: "nat \<Rightarrow> string + Operation"
  fetchOutcome :: "string \<Rightarrow> FetchOutcome"
  apiKey :: string

text \<open>
  The loop \<^verbatim>\<open>while (!operation.done)\<close>: \<open>i\<close> counts the polls made so far, \<open>waited\<close>
  the milliseconds spent in \<^verbatim>\<open>setTimeout\<close>. The loop has no other exit than a done
  operation or a throwing poll; a run that never leaves it has the value \<open>None\<close>.
\<close>

partial_function (option) pollLoop ::
  "(nat \<Rightarrow> string + Operation) \<Rightarrow> nat \<Rightarrow> nat \<Rightarrow> Operation \<Rightarrow> ((string + Operation) \<times> nat \<times> nat) option"
where
  "pollLoop poll i waited operation =
     (if op_done operation then Some (Inr operation, i, waited)
      else (case poll i of
              Inl e \<Rightarrow> Some (Inl e, Suc i, waited + 10000)
            | Inr operation' \<Rightarrow> pollLoop poll (Suc i) (waited + 10000) operation'))"

declare pollLoop.simps [code]

text \<open>The statements after the loop, inside the \<^verbatim>\<open>try\<close>.\<close>

definition download :: "VeoService \<Rightarrow> Operation \<Rightarrow> string + string" where
  "download v operation =
     (case videoUriOf operation of
        None \<Rightarrow> Inl ''No video URI returned from generation.''
      | Some videoUri \<Rightarrow>
          if videoUri = [] then Inl ''No video URI returned from generation.''
          else (case fetchOutcome v (videoUri @ ''&key='' @ apiKey v) of
                  FetchThrows e \<Rightarrow> Inl e
                | FetchResponse ok statusText blob \<Rightarrow>
                    if \<not> ok then Inl (''Failed to download video: '' @ statusText)
                    else blob))"

text \<open>The body of the \<^verbatim>\<open>try\<close> block: \<open>Inl\<close> is an error thrown inside it.\<close>

definition veoTry :: "VeoService \<Rightarrow> (string + string) option" where
  "veoTry v =
     (case submitOutcome v of
        Inl e \<Rightarrow> Some (Inl e)
      | Inr operation \<Rightarrow>
          (case pollLoop (pollOutcome v) 0 0 operation of
             None \<Rightarrow> None
           | Some (r, n, waited) \<Rightarrow>
               (case r of
                  Inl e \<Rightarrow> Some (Inl e)
                | Inr operation' \<Rightarrow> Some (download v operation'))))"

definition veoFailure :: string where
  "veoFailure = ''Video generation failed. Please ensure you are using a paid billing project enabled for Veo.''"

text \<open>
  What \<^verbatim>\<open>getClient()\<close> does in the first statement of \<^verbatim>\<open>generateVeoVideo\<close>, before
  the \<^verbatim>\<open>try\<close>: the constructor throws an error with the given message (as it does in
  a browser when \<^verbatim>\<open>process.env.API_KEY\<close> is missing), or it returns a client, behind
  which the services behave as the record says.
\<close>

datatype ClientOutcome = ClientThrows string | Client VeoService

text \<open>
  \<^verbatim>\<open>generateVeoVideo\<close>: an error thrown by \<^verbatim>\<open>getClient()\<close> leaves the function as it
  is, since that call stands before the \<^verbatim>\<open>try\<close>; the \<^verbatim>\<open>catch\<close> replaces whatever was
  thrown inside the \<^verbatim>\<open>try\<close> by one fixed error.
\<close>

definition generateVeoVideo :: "ClientOutcome \<Rightarrow> (string + string) option" where
  "generateVeoVideo c =
     (case c of
        ClientThrows e \<Rightarrow> Some (Inl e)
      | Client v \<Rightarrow>
          (case veoTry v of
             None \<Rightarrow> None
           | Some (Inl e) \<Rightarrow> Some (Inl veoFailure)
           | Some (Inr url) \<Rightarrow> Some (Inr url)))"

text \<open>
  The prompts that one call \<^verbatim>\<open>generateVeoVideo(prompt)\<close> sends to the service with
  \<^verbatim>\<open>ai.models.generateVideos\<close>: the request is the first call inside the \<^verbatim>\<open>try\<close>, made
  before the first suspension, so it is sent exactly when the client could be built, and
  nowhere else.
\<close>

definition generateVideosRequests :: "ClientOutcome \<Rightarrow> string \<Rightarrow> string list" where
  "generateVideosRequests c prompt = (case c of ClientThrows e \<Rightarrow> [] | Client v \<Rightarrow> [prompt])"

section \<open>App.tsx: the handlers\<close>

subsection \<open>File selection\<close>

text \<open>
  \<^verbatim>\<open>handleFileChange\<close> up to the point where the reader is started. The argument is
  \<^verbatim>\<open>e.target.files[0]\<close>, \<open>None\<close> when the list is absent or empty.
\<close>

definition handleFileChange :: "File option \<Rightarrow> world \<Rightarrow> world" where
  "handleFileChange f w =
     (case f of
        None \<Rightarrow> w
      | Some fl \<Rightarrow>
          if file_size fl > 8 * 1024 * 1024
          then w\<lparr>error := Some ''File is too large. Please upload an MP3 under 8MB.''\<rparr>
          else w\<lparr>fileReads := fileReads w @ [fl]\<rparr>)"

text \<open>\<^verbatim>\<open>performAnalysis\<close> up to its \<^verbatim>\<open>await\<close>: the request goes out.\<close>

definition performAnalysis :: "string option \<Rightarrow> string \<Rightarrow> world \<Rightarrow> world" where
  "performAnalysis base64 mimeType w =
     w\<lparr>analysisCalls := analysisCalls w @ [(base64, mimeType)]\<rparr>"

text \<open>
  \<^verbatim>\<open>reader.onload\<close> for the file \<open>fl\<close>: \<open>dataUrl\<close> is the reader's result, \<open>url\<close> the
  string that \<^verbatim>\<open>URL.createObjectURL(file)\<close> returns.
\<close>

definition reader_onload :: "File \<Rightarrow> string \<Rightarrow> string \<Rightarrow> world \<Rightarrow> world" where
  "reader_onload fl dataUrl url w =
     (let base64 = index_opt (split_at CHR '','' dataUrl) 1
      in performAnalysis base64 (file_type fl)
           (w\<lparr>audioFile := Some \<lparr>af_name = file_name fl, af_type = file_type fl,
                                   af_base64 = base64, af_url = url\<rparr>,
              error := None,
              status := ANALYZING\<rparr>))"

text \<open>
  The rest of \<^verbatim>\<open>performAnalysis\<close>, run when the call settles; \<open>r\<close> is what
  \<^verbatim>\<open>generateContent\<close> did. The setters are called whatever the state is by then.
\<close>

definition performAnalysis_settle :: "string + string option \<Rightarrow> world \<Rightarrow> world" where
  "performAnalysis_settle r w =
     (case analyzeAudioForPrompt r of
        Inr prompt \<Rightarrow> w\<lparr>generatedPrompt := prompt, status := REVIEW\<rparr>
      | Inl e \<Rightarrow>
          w\<lparr>error := Some ''Failed to analyze audio. Please try a different file or check your connection.'',
            status := IDLE\<rparr>)"

subsection \<open>Prompt edit, generate, reset\<close>

text \<open>The \<^verbatim>\<open>onChange\<close> of the textarea: \<^verbatim>\<open>setGeneratedPrompt(e.target.value)\<close>.\<close>

definition setGeneratedPrompt :: "string \<Rightarrow> world \<Rightarrow> world" where
  "setGeneratedPrompt v w = w\<lparr>generatedPrompt := v\<rparr>"

text \<open>
  \<^verbatim>\<open>handleGenerateVideo\<close> up to its \<^verbatim>\<open>await\<close>. The only guard is the empty prompt;
  the status is not read.
\<close>

definition handleGenerateVideo :: "world \<Rightarrow> world" where
  "handleGenerateVideo w =
     (if generatedPrompt w = [] then w
      else w\<lparr>status := GENERATING, error := None,
             submittedJobs := submittedJobs w @ [generatedPrompt w]\<rparr>)"

text \<open>
  The rest of \<^verbatim>\<open>handleGenerateVideo\<close>, run when \<^verbatim>\<open>generateVeoVideo\<close> settles:
  \<open>Inr uri\<close> when it resolves, \<open>Inl m\<close> when it throws an error with message \<open>m\<close>.
\<close>

definition handleGenerateVideo_settle :: "string + string \<Rightarrow> world \<Rightarrow> world" where
  "handleGenerateVideo_settle r w =
     (case r of
        Inr uri \<Rightarrow> w\<lparr>videoUrl := Some uri, status := COMPLETED\<rparr>
      | Inl m \<Rightarrow> w\<lparr>error := Some (or_else (Some m) ''Failed to generate video.''),
                   status := REVIEW\<rparr>)"

definition handleReset :: "world \<Rightarrow> world" where
  "handleReset w =
     w\<lparr>status := IDLE, audioFile := None, generatedPrompt := [], videoUrl := None,
       error := None\<rparr>"

text \<open>
  \<^verbatim>\<open>handleGenerateVideo\<close> run to its end against a client and its services with
  nothing else happening in between; \<open>None\<close> when the client never returns.
\<close>

definition handleGenerateVideo_run :: "ClientOutcome \<Rightarrow> world \<Rightarrow> world option" where
  "handleGenerateVideo_run c w =
     (if generatedPrompt w = [] then Some w
      else (case generateVeoVideo c of
              None \<Rightarrow> None
            | Some r \<Rightarrow> Some (handleGenerateVideo_settle r (handleGenerateVideo w))))"

subsection \<open>Credential selection\<close>

text \<open>
  \<^verbatim>\<open>checkApiKey\<close> after its \<^verbatim>\<open>await\<close>: \<open>None\<close> when \<^verbatim>\<open>window.aistudio\<close> or its
  method is missing or the call throws (logged only), \<open>Some hasKey\<close> otherwise.
\<close>

definition checkApiKey :: "bool option \<Rightarrow> world \<Rightarrow> world" where
  "checkApiKey r w = (case r of None \<Rightarrow> w | Some hasKey \<Rightarrow> w\<lparr>keySelected := hasKey\<rparr>)"

text \<open>
  \<^verbatim>\<open>handleSelectKey\<close> after its \<^verbatim>\<open>await\<close>: \<open>None\<close> when \<^verbatim>\<open>window.aistudio\<close> is
  missing, \<open>Some True\<close> when \<^verbatim>\<open>openSelectKey\<close> resolves, \<open>Some False\<close> when it throws.
\<close>

definition handleSelectKey :: "bool option \<Rightarrow> world \<Rightarrow> world" where
  "handleSelectKey r w =
     (case r of
        None \<Rightarrow> w
      | Some ok \<Rightarrow>
          if ok then w\<lparr>keySelected := True\<rparr>
          else w\<lparr>error := Some ''Failed to select API key. Please try again.''\<rparr>)"

subsection \<open>The effect that revokes the video URL\<close>

text \<open>
  The \<^verbatim>\<open>useEffect\<close> with dependency \<^verbatim>\<open>[videoUrl]\<close> has a cleanup only: when a render
  commits a \<^verbatim>\<open>videoUrl\<close> that differs from the one of the render before, the cleanup of
  the render before runs, on its own \<^verbatim>\<open>videoUrl\<close>. No effect mentions
  \<^verbatim>\<open>audioFile.url\<close>.
\<close>

definition startsWith :: "string \<Rightarrow> string \<Rightarrow> bool" where
  "startsWith s p = (take (length p) s = p)"

definition blobCleanup :: "world \<Rightarrow> world \<Rightarrow> world" where
  "blobCleanup prev cur =
     (if videoUrl cur = videoUrl prev then cur
      else (case videoUrl prev of
              None \<Rightarrow> cur
            | Some u \<Rightarrow>
                if u \<noteq> [] \<and> startsWith u ''blob:''
                then cur\<lparr>revokedUrls := revokedUrls cur @ [u]\<rparr>
                else cur))"

text \<open>A handler followed by the render it causes.\<close>

definition commit :: "(world \<Rightarrow> world) \<Rightarrow> world \<Rightarrow> world" where
  "commit h w = blobCleanup w (h w)"

subsection \<open>What the render offers\<close>

text \<open>
  The JSX renders the workflow only when \<^verbatim>\<open>keySelected\<close> holds, and each control under
  a condition on the state: the file input in \<^verbatim>\<open>IDLE\<close>; the textarea, Cancel and
  Generate Video in \<^verbatim>\<open>REVIEW && audioFile\<close>; Create Another in
  \<^verbatim>\<open>COMPLETED && videoUrl && audioFile\<close>; nothing clickable in \<^verbatim>\<open>ANALYZING\<close> and
  \<^verbatim>\<open>GENERATING\<close>.
\<close>

definition fileInputShown :: "world \<Rightarrow> bool" where
  "fileInputShown w = (keySelected w \<and> status w = IDLE)"

definition reviewShown :: "world \<Rightarrow> bool" where
  "reviewShown w = (keySelected w \<and> status w = REVIEW \<and> audioFile w \<noteq> None)"

definition completedShown :: "world \<Rightarrow> bool" where
  "completedShown w =
     (keySelected w \<and> status w = COMPLETED \<and> videoUrl w \<noteq> None \<and> videoUrl w \<noteq> Some []
      \<and> audioFile w \<noteq> None)"

text \<open>
  A user action on a control of the render committed for the state \<open>w\<close>: it runs the
  handler and the render that follows, and does nothing when the control is not
  rendered. Two calls of a handler with no render in between are two applications of the
  handler itself.
\<close>

definition selectFile :: "File option \<Rightarrow> world \<Rightarrow> world" where
  "selectFile f w = (if fileInputShown w then commit (handleFileChange f) w else w)"

definition editPrompt :: "string \<Rightarrow> world \<Rightarrow> world" where
  "editPrompt v w = (if reviewShown w then commit (setGeneratedPrompt v) w else w)"

definition clickGenerate :: "world \<Rightarrow> world" where
  "clickGenerate w = (if reviewShown w then commit handleGenerateVideo w else w)"

definition clickReset :: "world \<Rightarrow> world" where
  "clickReset w =
     (if reviewShown w \<or> completedShown w then commit handleReset w else w)"

section \<open>Predicates and sample runs used in the statements\<close>

text \<open>A poll outcome that keeps the loop going: no throw, and an operation not yet done.\<close>

definition stillRunning :: "string + Operation \<Rightarrow> bool" where
  "stillRunning r = (case r of Inl e \<Rightarrow> False | Inr operation \<Rightarrow> \<not> op_done operation)"

text \<open>The prompt invariant of the specification, as a test on a state.\<close>

definition prompt_inv :: "world \<Rightarrow> bool" where
  "prompt_inv w =
     (if status w = REVIEW \<or> status w = GENERATING \<or> status w = COMPLETED
      then generatedPrompt w \<noteq> [] else True)"

text \<open>
  A run from the initial state: a key is found, a file of exactly 8 MiB is selected and
  read, the analysis answers, Generate Video is clicked, the job delivers a video.
\<close>

definition exampleFile :: File where
  "exampleFile = \<lparr>file_name = ''clip.mp3'', file_type = ''audio/mpeg'',
     file_size = 8 * 1024 * 1024\<rparr>"

definition analyzingState :: world where
  "analyzingState =
     reader_onload exampleFile ''data:audio/mpeg;base64,QUJD'' ''blob:audio-1''
       (selectFile (Some exampleFile) (checkApiKey (Some True) initial))"

definition reviewState :: world where
  "reviewState =
     performAnalysis_settle (Inr (Some ''a neon cityscape at night'')) analyzingState"

definition generatingState :: world where
  "generatingState = clickGenerate reviewState"

definition completedState :: world where
  "completedState = commit (handleGenerateVideo_settle (Inr ''blob:video-1'')) generatingState"

text \<open>
  A second run in which a second file is selected while the first is still being read,
  so that two analyses are under way: the first answer opens the review, Generate Video
  is clicked, and the second answer arrives while the job is outstanding.
\<close>

definition secondFile :: File where
  "secondFile = \<lparr>file_name = ''other.mp3'', file_type = ''audio/mpeg'', file_size = 1000\<rparr>"

definition overlapState :: world where
  "overlapState =
     performAnalysis_settle (Inr (Some ''a quiet forest at dawn''))
       (clickGenerate
          (performAnalysis_settle (Inr (Some ''a neon cityscape at night''))
             (reader_onload secondFile ''data:audio/mpeg;base64,REVG'' ''blob:audio-2''
                (reader_onload exampleFile ''data:audio/mpeg;base64,QUJD'' ''blob:audio-1''
                   (selectFile (Some secondFile)
                      (selectFile (Some exampleFile) (checkApiKey (Some True) initial)))))))"

text \<open>Sample services: operations, and three behaviours of the video service.\<close>

definition runningOp :: Operation where
  "runningOp = \<lparr>op_done = False, op_response = None\<rparr>"

definition emptyDoneOp :: Operation where
  "emptyDoneOp = \<lparr>op_done = True, op_response = Some \<lparr>generatedVideos = Some []\<rparr>\<rparr>"

definition noVideoService :: VeoService where
  "noVideoService = \<lparr>submitOutcome = Inr runningOp,
     pollOutcome = (\<lambda>i. if i < 2 then Inr runningOp else Inr emptyDoneOp),
     fetchOutcome = (\<lambda>u. FetchThrows ''network''),
     apiKey = ''key''\<rparr>"


section \<open>Basic facts\<close>

lemma blobCleanup_same: "videoUrl c = videoUrl p \<Longrightarrow> blobCleanup p c = c"
  by (simp add: blobCleanup_def)

lemma blobCleanup_fields:
  "status (blobCleanup p c) = status c"
  "audioFile (blobCleanup p c) = audioFile c"
  "generatedPrompt (blobCleanup p c) = generatedPrompt c"
  "videoUrl (blobCleanup p c) = videoUrl c"
  "error (blobCleanup p c) = error c"
  "keySelected (blobCleanup p c) = keySelected c"
  "fileReads (blobCleanup p c) = fileReads c"
  "analysisCalls (blobCleanup p c) = analysisCalls c"
  "submittedJobs (blobCleanup p c) = submittedJobs c"
  by (simp_all add: blobCleanup_def split: option.splits)

lemma commit_keeps_videoUrl: "videoUrl (h w) = videoUrl w \<Longrightarrow> commit h w = h w"
  by (simp add: commit_def blobCleanup_same)

lemma analyzingState_eq:
  "analyzingState = \<lparr>status = ANALYZING,
     audioFile = Some \<lparr>af_name = ''clip.mp3'', af_type = ''audio/mpeg'',
                        af_base64 = Some ''QUJD'', af_url = ''blob:audio-1''\<rparr>,
     generatedPrompt = [], videoUrl = None, error = None, keySelected = True,
     fileReads = [exampleFile], analysisCalls = [(Some ''QUJD'', ''audio/mpeg'')],
     submittedJobs = [], revokedUrls = []\<rparr>"
  by (simp add: analyzingState_def reader_onload_def selectFile_def checkApiKey_def
      initial_def fileInputShown_def commit_def handleFileChange_def blobCleanup_def
      performAnalysis_def index_opt_def exampleFile_def Let_def)

lemma reviewState_eq:
  "reviewState = \<lparr>status = REVIEW,
     audioFile = Some \<lparr>af_name = ''clip.mp3'', af_type = ''audio/mpeg'',
                        af_base64 = Some ''QUJD'', af_url = ''blob:audio-1''\<rparr>,
     generatedPrompt = ''a neon cityscape at night'', videoUrl = None, error = None,
     keySelected = True,
     fileReads = [exampleFile], analysisCalls = [(Some ''QUJD'', ''audio/mpeg'')],
     submittedJobs = [], revokedUrls = []\<rparr>"
  by (simp add: reviewState_def analyzingState_eq performAnalysis_settle_def
      analyzeAudioForPrompt_def or_else_def)

lemma generatingState_eq:
  "generatingState = \<lparr>status = GENERATING,
     audioFile = Some \<lparr>af_name = ''clip.mp3'', af_type = ''audio/mpeg'',
                        af_base64 = Some ''QUJD'', af_url = ''blob:audio-1''\<rparr>,
     generatedPrompt = ''a neon cityscape at night'', videoUrl = None, error = None,
     keySelected = True,
     fileReads = [exampleFile], analysisCalls = [(Some ''QUJD'', ''audio/mpeg'')],
     submittedJobs = [''a neon cityscape at night''], revokedUrls = []\<rparr>"
  by (simp add: generatingState_def reviewState_eq clickGenerate_def reviewShown_def
      commit_def blobCleanup_def handleGenerateVideo_def)

lemma completedState_eq:
  "completedState = \<lparr>status = COMPLETED,
     audioFile = Some \<lparr>af_name = ''clip.mp3'', af_type = ''audio/mpeg'',
                        af_base64 = Some ''QUJD'', af_url = ''blob:audio-1''\<rparr>,
     generatedPrompt = ''a neon cityscape at night'', videoUrl = Some ''blob:video-1'',
     error = None, keySelected = True,
     fileReads = [exampleFile], analysisCalls = [(Some ''QUJD'', ''audio/mpeg'')],
     submittedJobs = [''a neon cityscape at night''], revokedUrls = []\<rparr>"
  by (simp add: completedState_def generatingState_eq commit_def blobCleanup_def
      handleGenerateVideo_settle_def)

lemma overlapState_eq:
  "overlapState = \<lparr>status = REVIEW,
     audioFile = Some \<lparr>af_name = ''other.mp3'', af_type = ''audio/mpeg'',
                        af_base64 = Some ''REVG'', af_url = ''blob:audio-2''\<rparr>,
     generatedPrompt = ''a quiet forest at dawn'', videoUrl = None, error = None,
     keySelected = True,
     fileReads = [exampleFile, secondFile],
     analysisCalls = [(Some ''QUJD'', ''audio/mpeg''), (Some ''REVG'', ''audio/mpeg'')],
     submittedJobs = [''a neon cityscape at night''], revokedUrls = []\<rparr>"
  by (simp add: overlapState_def reader_onload_def selectFile_def checkApiKey_def
      initial_def fileInputShown_def reviewShown_def commit_def handleFileChange_def
      blobCleanup_def performAnalysis_def index_opt_def exampleFile_def secondFile_def
      performAnalysis_settle_def analyzeAudioForPrompt_def or_else_def clickGenerate_def
      handleGenerateVideo_def Let_def)

section \<open>File selection\<close>

text \<open>
  Claim C7. Whenever an oversized file is selected while the status is \<open>IDLE\<close>, the
  selection is rejected: the status stays \<open>IDLE\<close>, a non-empty error message is set, the
  stored audio input is left as it was, no reader is started and no analysis call is
  made. The only change to the state is the error message.
\<close>

theorem oversized_file_rejected:
  assumes "status w = IDLE" and "file_size fl > 8 * 1024 * 1024"
  shows "status (handleFileChange (Some fl) w) = IDLE
       \<and> (\<exists>m. error (handleFileChange (Some fl) w) = Some m \<and> m \<noteq> [])
       \<and> audioFile (handleFileChange (Some fl) w) = audioFile w
       \<and> analysisCalls (handleFileChange (Some fl) w) = analysisCalls w
       \<and> fileReads (handleFileChange (Some fl) w) = fileReads w
       \<and> commit (handleFileChange (Some fl)) w
           = w\<lparr>error := Some ''File is too large. Please upload an MP3 under 8MB.''\<rparr>"
  using assms by (simp add: handleFileChange_def commit_def blobCleanup_def)

theorem oversized_file_rejected_witness:
  "status (handleFileChange (Some (exampleFile\<lparr>file_size := 8388609\<rparr>)) initial) = IDLE
   \<and> error (handleFileChange (Some (exampleFile\<lparr>file_size := 8388609\<rparr>)) initial)
       = Some ''File is too large. Please upload an MP3 under 8MB.''
   \<and> audioFile (handleFileChange (Some (exampleFile\<lparr>file_size := 8388609\<rparr>)) initial) = None
   \<and> analysisCalls (handleFileChange (Some (exampleFile\<lparr>file_size := 8388609\<rparr>)) initial) = []
   \<and> fileReads (handleFileChange (Some (exampleFile\<lparr>file_size := 8388609\<rparr>)) initial) = []"
proof -
  have a: "status initial = IDLE" by (simp add: initial_def)
  have b: "file_size (exampleFile\<lparr>file_size := 8388609\<rparr>) > 8 * 1024 * 1024" by simp
  from oversized_file_rejected [OF a b] show ?thesis
    by (simp add: initial_def handleFileChange_def)
qed

text \<open>
  Claim C10. The size check is the strict comparison with 8 * 1024 * 1024 bytes: a file
  of that size or less is accepted (the reader is started on it and no error is set),
  the rejecting branch is taken exactly for the sizes above it, and once read the
  accepted file becomes the audio input while the status becomes \<open>ANALYZING\<close>.
\<close>

theorem size_limit_inclusive:
  "(file_size fl \<le> 8 * 1024 * 1024 \<longrightarrow>
      handleFileChange (Some fl) w = w\<lparr>fileReads := fileReads w @ [fl]\<rparr>)
   \<and> (handleFileChange (Some fl) w
        = w\<lparr>error := Some ''File is too large. Please upload an MP3 under 8MB.''\<rparr>
      \<longleftrightarrow> file_size fl > 8 * 1024 * 1024)
   \<and> status (reader_onload fl dataUrl url w) = ANALYZING
   \<and> map_option af_url (audioFile (reader_onload fl dataUrl url w)) = Some url"
proof -
  have "w\<lparr>fileReads := fileReads w @ [fl]\<rparr> \<noteq> w\<lparr>error := e\<rparr>" for e
  proof
    assume "w\<lparr>fileReads := fileReads w @ [fl]\<rparr> = w\<lparr>error := e\<rparr>"
    then have "fileReads (w\<lparr>fileReads := fileReads w @ [fl]\<rparr>) = fileReads (w\<lparr>error := e\<rparr>)"
      by (rule arg_cong)
    then show False by simp
  qed
  then show ?thesis
    by (simp add: handleFileChange_def reader_onload_def performAnalysis_def Let_def)
qed

theorem size_limit_inclusive_witness:
  "file_size exampleFile = 8388608
   \<and> handleFileChange (Some exampleFile) initial = initial\<lparr>fileReads := [exampleFile]\<rparr>
   \<and> handleFileChange (Some (exampleFile\<lparr>file_size := 8388609\<rparr>)) initial
       = initial\<lparr>error := Some ''File is too large. Please upload an MP3 under 8MB.''\<rparr>"
proof -
  have a: "file_size exampleFile \<le> 8 * 1024 * 1024" by (simp add: exampleFile_def)
  have b: "file_size (exampleFile\<lparr>file_size := 8388609\<rparr>) > 8 * 1024 * 1024" by simp
  from size_limit_inclusive [of exampleFile initial] a
    size_limit_inclusive [of "exampleFile\<lparr>file_size := 8388609\<rparr>" initial] b
  show ?thesis by (simp add: exampleFile_def initial_def)
qed

section \<open>Analysis resolution\<close>

lemma fallbackPrompt_nonempty: "fallbackPrompt \<noteq> []"
  by (simp add: fallbackPrompt_def)

lemma or_else_nonempty: "b \<noteq> [] \<Longrightarrow> or_else a b \<noteq> []"
  by (simp add: or_else_def split: option.splits)

text \<open>
  Claim C3. Whenever the analysis call resolves while the status is \<open>ANALYZING\<close>, the
  status becomes \<open>REVIEW\<close> and the stored prompt is exactly the returned text; when the
  returned text is empty or absent the fixed fallback text, which is not empty, is stored
  instead, and the step does not fail. Nothing else in the state changes.
\<close>

theorem analysis_resolution_review:
  assumes "status w = ANALYZING"
  shows "(text \<noteq> [] \<longrightarrow>
            performAnalysis_settle (Inr (Some text)) w
              = w\<lparr>generatedPrompt := text, status := REVIEW\<rparr>)
       \<and> performAnalysis_settle (Inr (Some [])) w
            = w\<lparr>generatedPrompt := fallbackPrompt, status := REVIEW\<rparr>
       \<and> performAnalysis_settle (Inr None) w
            = w\<lparr>generatedPrompt := fallbackPrompt, status := REVIEW\<rparr>
       \<and> fallbackPrompt \<noteq> []
       \<and> status (commit (performAnalysis_settle (Inr t)) w) = REVIEW
       \<and> error (commit (performAnalysis_settle (Inr t)) w) = error w"
  by (simp add: performAnalysis_settle_def analyzeAudioForPrompt_def or_else_def
      fallbackPrompt_nonempty commit_def blobCleanup_fields)

theorem analysis_resolution_review_witness:
  "status analyzingState = ANALYZING
   \<and> generatedPrompt (performAnalysis_settle (Inr (Some ''a neon cityscape at night'')) analyzingState)
       = ''a neon cityscape at night''
   \<and> status (performAnalysis_settle (Inr (Some ''a neon cityscape at night'')) analyzingState)
       = REVIEW
   \<and> generatedPrompt (performAnalysis_settle (Inr (Some [])) analyzingState)
       = ''A futuristic abstract scene pulsing with neon colors.''
   \<and> status (performAnalysis_settle (Inr (Some [])) analyzingState) = REVIEW"
proof -
  have a: "status analyzingState = ANALYZING" by (simp add: analyzingState_eq)
  from analysis_resolution_review [OF a, of "''a neon cityscape at night''"] a
  show ?thesis by (simp add: fallbackPrompt_def)
qed

section \<open>Generate\<close>

text \<open>
  Claim C9. If the stored prompt is the empty string, triggering generate changes
  nothing: status, audio input, prompt, video result and error are as before and no job
  is submitted; this holds for the handler, for the handler followed by its render, for
  the click on the control, and for the handler run to its end against any service.
\<close>

theorem generate_empty_prompt_noop:
  assumes "generatedPrompt w = []"
  shows "handleGenerateVideo w = w
       \<and> commit handleGenerateVideo w = w
       \<and> clickGenerate w = w
       \<and> handleGenerateVideo_run v w = Some w
       \<and> submittedJobs (handleGenerateVideo w) = submittedJobs w"
  using assms
  by (simp add: handleGenerateVideo_def commit_def blobCleanup_same clickGenerate_def
      handleGenerateVideo_run_def)

theorem generate_empty_prompt_noop_witness:
  "generatedPrompt (setGeneratedPrompt [] reviewState) = []
   \<and> status (handleGenerateVideo (setGeneratedPrompt [] reviewState)) = REVIEW
   \<and> submittedJobs (handleGenerateVideo (setGeneratedPrompt [] reviewState)) = []
   \<and> handleGenerateVideo_run (Client noVideoService) (setGeneratedPrompt [] reviewState)
       = Some (setGeneratedPrompt [] reviewState)"
proof -
  have a: "generatedPrompt (setGeneratedPrompt [] reviewState) = []"
    by (simp add: setGeneratedPrompt_def)
  from generate_empty_prompt_noop [OF a, of "Client noVideoService"] show ?thesis
    by (simp add: setGeneratedPrompt_def reviewState_eq)
qed

text \<open>
  Claim C1 as stated fails. \<^verbatim>\<open>handleGenerateVideo\<close> does not look at the status or at
  outstanding requests: called in the state reached by a first generate, with that job
  still outstanding, it submits the prompt again. The same happens through the rendered
  controls when a late analysis answer has put the status back to \<open>REVIEW\<close> while the
  job is outstanding: the second click submits a second job.
\<close>

theorem generate_twice_counterexample:
  "status generatingState = GENERATING
   \<and> submittedJobs generatingState = [''a neon cityscape at night'']
   \<and> submittedJobs (handleGenerateVideo generatingState)
       = [''a neon cityscape at night'', ''a neon cityscape at night'']
   \<and> status overlapState = REVIEW
   \<and> submittedJobs overlapState = [''a neon cityscape at night'']
   \<and> submittedJobs (clickGenerate overlapState)
       = [''a neon cityscape at night'', ''a quiet forest at dawn'']"
  by (simp add: generatingState_eq overlapState_eq handleGenerateVideo_def clickGenerate_def
      reviewShown_def commit_def blobCleanup_def)

text \<open>
  Claim C1 as amended. Job submission has no guard on outstanding requests.
  \<^verbatim>\<open>handleGenerateVideo\<close> submits one job to the video job client on every call with a
  non-empty prompt, whatever the status and whether or not a request is outstanding, so
  two calls of the handler with no render in between submit two jobs. What protects
  against a double submission is the render alone: the Generate Video control is offered
  only when a key is selected, the status is \<open>REVIEW\<close> and an audio input is present, so
  a click changes the state only there and only with a non-empty prompt; such a click
  submits exactly one job, clears the error and sets the status to \<open>GENERATING\<close>, whatever
  jobs are still outstanding (a late analysis answer can bring the status back to
  \<open>REVIEW\<close> while a job is outstanding, and the control then submits again); a click
  in any state where the control is not rendered, in particular in every state with
  status \<open>GENERATING\<close>, is a no-op. Hence of two clicks in succession, the second made on
  the render committed after the first and with no other event in between, the second
  is a no-op, and the two together submit exactly one job. For each submitted job the
  client sends one request to the service, unless building the API client throws; then
  it sends none.
\<close>

theorem generate_control_single_flight:
  "(clickGenerate w \<noteq> w \<longrightarrow>
      keySelected w \<and> status w = REVIEW \<and> audioFile w \<noteq> None \<and> generatedPrompt w \<noteq> [])
   \<and> (status w = GENERATING \<longrightarrow> clickGenerate w = w)
   \<and> (keySelected w \<and> status w = REVIEW \<and> audioFile w \<noteq> None \<and> generatedPrompt w \<noteq> [] \<longrightarrow>
        clickGenerate w
          = w\<lparr>status := GENERATING, error := None,
              submittedJobs := submittedJobs w @ [generatedPrompt w]\<rparr>
        \<and> submittedJobs (clickGenerate (clickGenerate w))
            = submittedJobs w @ [generatedPrompt w])
   \<and> clickGenerate (clickGenerate w) = clickGenerate w
   \<and> (generatedPrompt w \<noteq> [] \<longrightarrow>
        handleGenerateVideo w
          = w\<lparr>status := GENERATING, error := None,
              submittedJobs := submittedJobs w @ [generatedPrompt w]\<rparr>
        \<and> submittedJobs (handleGenerateVideo (handleGenerateVideo w))
            = submittedJobs w @ [generatedPrompt w, generatedPrompt w])
   \<and> generateVideosRequests (Client v) (generatedPrompt w) = [generatedPrompt w]
   \<and> generateVideosRequests (ClientThrows e) (generatedPrompt w) = []"
proof -
  have 1: "clickGenerate w \<noteq> w \<longrightarrow>
      keySelected w \<and> status w = REVIEW \<and> audioFile w \<noteq> None \<and> generatedPrompt w \<noteq> []"
    by (auto simp add: clickGenerate_def reviewShown_def commit_def blobCleanup_def
        handleGenerateVideo_def)
  have 2: "status w = GENERATING \<longrightarrow> clickGenerate w = w"
    by (simp add: clickGenerate_def reviewShown_def)
  have 3: "keySelected w \<and> status w = REVIEW \<and> audioFile w \<noteq> None \<and> generatedPrompt w \<noteq> [] \<longrightarrow>
        clickGenerate w
          = w\<lparr>status := GENERATING, error := None,
              submittedJobs := submittedJobs w @ [generatedPrompt w]\<rparr>
        \<and> submittedJobs (clickGenerate (clickGenerate w))
            = submittedJobs w @ [generatedPrompt w]"
    by (auto simp add: clickGenerate_def reviewShown_def commit_def blobCleanup_def
        handleGenerateVideo_def)
  have 4: "clickGenerate (clickGenerate w) = clickGenerate w"
    by (auto simp add: clickGenerate_def reviewShown_def commit_def blobCleanup_def
        handleGenerateVideo_def)
  have 5: "generatedPrompt w \<noteq> [] \<longrightarrow>
        handleGenerateVideo w
          = w\<lparr>status := GENERATING, error := None,
              submittedJobs := submittedJobs w @ [generatedPrompt w]\<rparr>
        \<and> submittedJobs (handleGenerateVideo (handleGenerateVideo w))
            = submittedJobs w @ [generatedPrompt w, generatedPrompt w]"
    by (simp add: handleGenerateVideo_def)
  have 6: "generateVideosRequests (Client v) (generatedPrompt w) = [generatedPrompt w]
         \<and> generateVideosRequests (ClientThrows e) (generatedPrompt w) = []"
    by (simp add: generateVideosRequests_def)
  from 1 2 3 4 5 6 show ?thesis by blast
qed

theorem generate_control_single_flight_witness:
  "keySelected reviewState \<and> status reviewState = REVIEW \<and> audioFile reviewState \<noteq> None
   \<and> generatedPrompt reviewState = ''a neon cityscape at night''
   \<and> clickGenerate reviewState \<noteq> reviewState
   \<and> clickGenerate reviewState = generatingState
   \<and> submittedJobs (clickGenerate reviewState) = [''a neon cityscape at night'']
   \<and> status generatingState = GENERATING
   \<and> clickGenerate generatingState = generatingState
   \<and> submittedJobs (clickGenerate (clickGenerate reviewState)) = [''a neon cityscape at night'']
   \<and> submittedJobs (handleGenerateVideo (handleGenerateVideo reviewState))
       = [''a neon cityscape at night'', ''a neon cityscape at night'']"
proof -
  have a: "keySelected reviewState \<and> status reviewState = REVIEW \<and> audioFile reviewState \<noteq> None
           \<and> generatedPrompt reviewState \<noteq> []"
    by (simp add: reviewState_eq)
  have b: "status generatingState = GENERATING" by (simp add: generatingState_eq)
  from generate_control_single_flight [of reviewState] a
  have r: "clickGenerate reviewState
            = reviewState\<lparr>status := GENERATING, error := None,
                submittedJobs := submittedJobs reviewState @ [generatedPrompt reviewState]\<rparr>
          \<and> submittedJobs (clickGenerate (clickGenerate reviewState))
              = submittedJobs reviewState @ [generatedPrompt reviewState]
          \<and> submittedJobs (handleGenerateVideo (handleGenerateVideo reviewState))
              = submittedJobs reviewState @ [generatedPrompt reviewState, generatedPrompt reviewState]"
    by blast
  from generate_control_single_flight [of generatingState] b
  have g: "clickGenerate generatingState = generatingState" by blast
  have ne: "generatingState \<noteq> reviewState"
  proof
    assume "generatingState = reviewState"
    then have "status generatingState = status reviewState" by (rule arg_cong)
    then show False by (simp add: generatingState_eq reviewState_eq)
  qed
  from r g ne b a show ?thesis
    by (simp add: generatingState_def [symmetric]) (simp add: reviewState_eq generatingState_eq)
qed

text \<open>
  When building the API client throws, the error leaves \<^verbatim>\<open>generateVeoVideo\<close> unchanged
  and its message becomes the error state (the fixed text ``Failed to generate video.''
  when the message is empty); no request has been sent to the service.
\<close>

lemma client_throws_reaches_error_state:
  "generatedPrompt w \<noteq> [] \<Longrightarrow>
   handleGenerateVideo_run (ClientThrows e) w
     = Some (w\<lparr>status := REVIEW,
               error := Some (if e = [] then ''Failed to generate video.'' else e),
               submittedJobs := submittedJobs w @ [generatedPrompt w]\<rparr>)"
  by (simp add: handleGenerateVideo_run_def generateVeoVideo_def handleGenerateVideo_def
      handleGenerateVideo_settle_def or_else_def)

section \<open>Reset and late results\<close>

text \<open>
  Claim C2 as stated fails: no result is discarded. The continuations of
  \<^verbatim>\<open>handleGenerateVideo\<close> and \<^verbatim>\<open>performAnalysis\<close> call the setters without looking at
  the state. In the run where Cancel is clicked while a job is outstanding, the job's
  video arriving afterwards makes the status \<open>COMPLETED\<close> with a video result and no
  audio input; a failing job leaves the status \<open>REVIEW\<close> with an error; an analysis
  answer arriving after a reset leaves the status \<open>REVIEW\<close>.
\<close>

theorem stale_result_counterexample:
  "submittedJobs overlapState = [''a neon cityscape at night'']
   \<and> status (clickReset overlapState) = IDLE
   \<and> status (commit (handleGenerateVideo_settle (Inr ''blob:video-1'')) (clickReset overlapState))
       = COMPLETED
   \<and> videoUrl (commit (handleGenerateVideo_settle (Inr ''blob:video-1'')) (clickReset overlapState))
       = Some ''blob:video-1''
   \<and> audioFile (commit (handleGenerateVideo_settle (Inr ''blob:video-1'')) (clickReset overlapState))
       = None
   \<and> status (commit (handleGenerateVideo_settle (Inl veoFailure)) (clickReset overlapState))
       = REVIEW
   \<and> error (commit (handleGenerateVideo_settle (Inl veoFailure)) (clickReset overlapState))
       = Some veoFailure
   \<and> status (handleGenerateVideo_settle (Inr ''blob:video-1'') (handleReset generatingState))
       = COMPLETED
   \<and> status (performAnalysis_settle (Inr (Some ''a quiet forest at dawn''))
               (handleReset analyzingState)) = REVIEW"
  by (simp add: overlapState_eq generatingState_eq analyzingState_eq clickReset_def
      reviewShown_def commit_def blobCleanup_def handleReset_def
      handleGenerateVideo_settle_def performAnalysis_settle_def analyzeAudioForPrompt_def
      or_else_def veoFailure_def)

text \<open>
  Claim C2 as amended. A reset leaves the status \<open>IDLE\<close> with no audio input, no video
  result, no error and an empty prompt, and the state stays so until a result arrives.
  There is no guard against late results: a result that arrives after the reset is
  applied as in any other state. A video makes the status \<open>COMPLETED\<close> and is stored; a
  job failure makes the status \<open>REVIEW\<close> and sets the error; an analysis answer makes the
  status \<open>REVIEW\<close> and stores the prompt; an analysis failure leaves the status \<open>IDLE\<close> and
  sets the error. The render offers no reset control while the status is \<open>ANALYZING\<close> or
  \<open>GENERATING\<close>.
\<close>

theorem reset_then_late_result:
  "status (commit handleReset w) = IDLE
   \<and> audioFile (commit handleReset w) = None
   \<and> videoUrl (commit handleReset w) = None
   \<and> error (commit handleReset w) = None
   \<and> generatedPrompt (commit handleReset w) = []
   \<and> status (handleGenerateVideo_settle (Inr uri) (commit handleReset w)) = COMPLETED
   \<and> videoUrl (handleGenerateVideo_settle (Inr uri) (commit handleReset w)) = Some uri
   \<and> audioFile (handleGenerateVideo_settle (Inr uri) (commit handleReset w)) = None
   \<and> status (handleGenerateVideo_settle (Inl m) (commit handleReset w)) = REVIEW
   \<and> error (handleGenerateVideo_settle (Inl m) (commit handleReset w))
       = Some (or_else (Some m) ''Failed to generate video.'')
   \<and> status (performAnalysis_settle (Inr t) (commit handleReset w)) = REVIEW
   \<and> generatedPrompt (performAnalysis_settle (Inr t) (commit handleReset w))
       = or_else t fallbackPrompt
   \<and> status (performAnalysis_settle (Inl e) (commit handleReset w)) = IDLE
   \<and> error (performAnalysis_settle (Inl e) (commit handleReset w))
       = Some ''Failed to analyze audio. Please try a different file or check your connection.''
   \<and> (status w = ANALYZING \<or> status w = GENERATING \<longrightarrow> clickReset w = w)"
  by (auto simp add: commit_def blobCleanup_fields handleReset_def
      handleGenerateVideo_settle_def performAnalysis_settle_def analyzeAudioForPrompt_def
      clickReset_def reviewShown_def completedShown_def)

theorem reset_then_late_result_witness:
  "status generatingState = GENERATING
   \<and> clickReset generatingState = generatingState
   \<and> status (commit handleReset generatingState) = IDLE
   \<and> status (handleGenerateVideo_settle (Inr ''blob:video-1'') (commit handleReset generatingState))
       = COMPLETED"
proof -
  have a: "status generatingState = GENERATING" by (simp add: generatingState_eq)
  from reset_then_late_result [of generatingState "''blob:video-1''"] a
  show ?thesis by simp
qed

text \<open>
  Claim C6, evaluated on the completed run. Clicking Create Another makes the status
  \<open>IDLE\<close> and clears audio input, prompt, video result and error, and the render that
  follows revokes the video's object URL. The object URL created for the audio in
  \<^verbatim>\<open>reader.onload\<close> is dropped from the state without being revoked.
\<close>

theorem reset_leaves_audio_url:
  "map_option af_url (audioFile completedState) = Some ''blob:audio-1''
   \<and> videoUrl completedState = Some ''blob:video-1''
   \<and> status (clickReset completedState) = IDLE
   \<and> audioFile (clickReset completedState) = None
   \<and> generatedPrompt (clickReset completedState) = []
   \<and> videoUrl (clickReset completedState) = None
   \<and> error (clickReset completedState) = None
   \<and> revokedUrls (clickReset completedState) = [''blob:video-1'']
   \<and> ''blob:audio-1'' \<notin> set (revokedUrls (clickReset completedState))"
  by (simp add: completedState_eq clickReset_def reviewShown_def completedShown_def
      commit_def blobCleanup_def handleReset_def startsWith_def)

text \<open>
  In every state, what a reset revokes is the video URL when it is a blob URL, and
  nothing else.
\<close>

lemma reset_revokes_video_only:
  "revokedUrls (commit handleReset w)
     = revokedUrls w @
       (case videoUrl w of
          None \<Rightarrow> []
        | Some u \<Rightarrow> if startsWith u ''blob:'' then [u] else [])"
  by (auto simp add: commit_def blobCleanup_def handleReset_def startsWith_def
      split: option.splits)

section \<open>The prompt invariant\<close>

text \<open>
  Claim C4 as stated fails. The textarea's \<^verbatim>\<open>onChange\<close> stores whatever the user
  typed, so clearing the textarea leaves the status \<open>REVIEW\<close> with an empty prompt. A
  job's video arriving after a reset makes the status \<open>COMPLETED\<close> with the empty prompt
  the reset has stored.
\<close>

theorem prompt_invariant_counterexample:
  "prompt_inv reviewState
   \<and> status (editPrompt [] reviewState) = REVIEW
   \<and> generatedPrompt (editPrompt [] reviewState) = []
   \<and> \<not> prompt_inv (editPrompt [] reviewState)
   \<and> prompt_inv (clickReset overlapState)
   \<and> \<not> prompt_inv (commit (handleGenerateVideo_settle (Inr ''blob:video-1''))
                        (clickReset overlapState))"
  by (simp add: prompt_inv_def reviewState_eq overlapState_eq editPrompt_def
      reviewShown_def commit_def blobCleanup_def setGeneratedPrompt_def clickReset_def
      handleReset_def handleGenerateVideo_settle_def)

text \<open>
  Claim C4 as amended. The invariant (a non-empty prompt whenever the status is
  \<open>REVIEW\<close>, \<open>GENERATING\<close> or \<open>COMPLETED\<close>) is preserved by file selection, by the end of
  the file read, by analysis resolution and failure, by generate and by reset; by a
  prompt edit to a non-empty string; and by a job result that arrives while the prompt
  is non-empty, in particular while the status is still \<open>GENERATING\<close>. An edit to the
  empty string is accepted in \<open>REVIEW\<close>, and generate then does nothing.
\<close>

theorem prompt_invariant_preserved:
  assumes "prompt_inv w"
  shows "prompt_inv (handleFileChange f w)
       \<and> prompt_inv (reader_onload fl dataUrl url w)
       \<and> prompt_inv (performAnalysis_settle r w)
       \<and> prompt_inv (handleGenerateVideo w)
       \<and> prompt_inv (handleReset w)
       \<and> (v \<noteq> [] \<longrightarrow> prompt_inv (setGeneratedPrompt v w))
       \<and> (generatedPrompt w \<noteq> [] \<longrightarrow> prompt_inv (handleGenerateVideo_settle j w))
       \<and> (status w = GENERATING \<longrightarrow> prompt_inv (handleGenerateVideo_settle j w))
       \<and> (generatedPrompt (setGeneratedPrompt [] w) = []
          \<and> status (setGeneratedPrompt [] w) = status w
          \<and> handleGenerateVideo (setGeneratedPrompt [] w) = setGeneratedPrompt [] w)"
proof -
  have 1: "prompt_inv (handleFileChange f w)"
    using assms by (simp add: prompt_inv_def handleFileChange_def split: option.splits)
  have 2: "prompt_inv (reader_onload fl dataUrl url w)"
    by (simp add: prompt_inv_def reader_onload_def performAnalysis_def Let_def)
  have 3: "prompt_inv (performAnalysis_settle r w)"
    by (cases r)
       (simp_all add: prompt_inv_def performAnalysis_settle_def analyzeAudioForPrompt_def
          or_else_nonempty fallbackPrompt_nonempty)
  have 4: "prompt_inv (handleGenerateVideo w)"
    using assms by (auto simp add: prompt_inv_def handleGenerateVideo_def split: if_splits)
  have 5: "prompt_inv (handleReset w)"
    by (simp add: prompt_inv_def handleReset_def)
  have 6: "v \<noteq> [] \<longrightarrow> prompt_inv (setGeneratedPrompt v w)"
    by (simp add: prompt_inv_def setGeneratedPrompt_def)
  have 7: "generatedPrompt w \<noteq> [] \<longrightarrow> prompt_inv (handleGenerateVideo_settle j w)"
    by (cases j) (simp_all add: prompt_inv_def handleGenerateVideo_settle_def)
  have 8: "status w = GENERATING \<longrightarrow> prompt_inv (handleGenerateVideo_settle j w)"
    using assms by (cases j) (simp_all add: prompt_inv_def handleGenerateVideo_settle_def)
  have 9: "generatedPrompt (setGeneratedPrompt [] w) = []
          \<and> status (setGeneratedPrompt [] w) = status w
          \<and> handleGenerateVideo (setGeneratedPrompt [] w) = setGeneratedPrompt [] w"
    by (simp add: setGeneratedPrompt_def handleGenerateVideo_def)
  from 1 2 3 4 5 6 7 8 9 show ?thesis by blast
qed

theorem prompt_invariant_preserved_witness:
  "prompt_inv generatingState
   \<and> status generatingState = GENERATING
   \<and> prompt_inv (handleGenerateVideo_settle (Inr ''blob:video-1'') generatingState)
   \<and> prompt_inv (handleGenerateVideo_settle (Inl veoFailure) generatingState)
   \<and> prompt_inv (setGeneratedPrompt ''a quiet forest at dawn'' generatingState)
   \<and> prompt_inv (handleReset generatingState)"
proof -
  have a: "prompt_inv generatingState" by (simp add: prompt_inv_def generatingState_eq)
  have b: "status generatingState = GENERATING" by (simp add: generatingState_eq)
  from prompt_invariant_preserved [OF a, of _ _ _ _ _ "''a quiet forest at dawn''" "Inr ''blob:video-1''"]
    prompt_invariant_preserved [OF a, of _ _ _ _ _ "''a quiet forest at dawn''" "Inl veoFailure"]
    a b
  show ?thesis by simp
qed

section \<open>The polling loop\<close>

lemma pollLoop_done:
  "op_done operation \<Longrightarrow> pollLoop poll i waited operation = Some (Inr operation, i, waited)"
  by (subst pollLoop.simps) simp

lemma pollLoop_throw:
  "\<not> op_done operation \<Longrightarrow> poll i = Inl e
   \<Longrightarrow> pollLoop poll i waited operation = Some (Inl e, Suc i, waited + 10000)"
  by (subst pollLoop.simps) simp

lemma pollLoop_step:
  "\<not> op_done operation \<Longrightarrow> poll i = Inr operation'
   \<Longrightarrow> pollLoop poll i waited operation = pollLoop poll (Suc i) (waited + 10000) operation'"
  by (subst pollLoop.simps) simp

text \<open>
  If the first \<open>n\<close> polls from position \<open>i\<close> keep the loop going and the next one does
  not, the loop returns that poll's outcome after \<open>n + 1\<close> polls and as many waits.
\<close>

lemma pollLoop_stops:
  "\<not> op_done operation \<Longrightarrow> (\<forall>j<n. stillRunning (poll (i + j)))
   \<Longrightarrow> \<not> stillRunning (poll (i + n))
   \<Longrightarrow> pollLoop poll i waited operation
       = Some (poll (i + n), Suc (i + n), waited + 10000 * Suc n)"
proof (induction n arbitrary: i waited operation)
  case 0
  show ?case
  proof (cases "poll i")
    case (Inl e)
    with 0 show ?thesis by (simp add: pollLoop_throw)
  next
    case (Inr o1)
    with 0 have "op_done o1" by (simp add: stillRunning_def)
    with 0 Inr show ?thesis by (simp add: pollLoop_step pollLoop_done)
  qed
next
  case (Suc n)
  from Suc.prems(2) have "stillRunning (poll (i + 0))" by blast
  then obtain o1 where o1: "poll i = Inr o1" "\<not> op_done o1"
    by (auto simp: stillRunning_def split: sum.splits)
  have a: "\<forall>j<n. stillRunning (poll (Suc i + j))" using Suc.prems(2) by auto
  have b: "\<not> stillRunning (poll (Suc i + n))" using Suc.prems(3) by simp
  have "pollLoop poll (Suc i) (waited + 10000) o1
          = Some (poll (Suc i + n), Suc (Suc i + n), (waited + 10000) + 10000 * Suc n)"
    by (rule Suc.IH [OF o1(2) a b])
  with Suc.prems(1) o1 show ?case by (simp add: pollLoop_step)
qed

text \<open>If the loop returns from an operation that is not done, some later poll ended it.\<close>

lemma pollLoop_returns_only_on_exit:
  assumes "pollLoop poll i waited operation = Some y"
  shows "\<not> op_done operation \<longrightarrow> (\<exists>j. \<not> stillRunning (poll (i + j)))"
proof (rule pollLoop.raw_induct [where P = "\<lambda>poll i waited operation y.
         \<not> op_done operation \<longrightarrow> (\<exists>j. \<not> stillRunning (poll (i + j)))", OF _ assms])
  fix f :: "(nat \<Rightarrow> string + Operation) \<Rightarrow> nat \<Rightarrow> nat \<Rightarrow> Operation
              \<Rightarrow> ((string + Operation) \<times> nat \<times> nat) option"
  fix poll i waited operation y
  assume IH: "\<And>poll i waited operation y. f poll i waited operation = Some y \<Longrightarrow>
                \<not> op_done operation \<longrightarrow> (\<exists>j. \<not> stillRunning (poll (i + j)))"
  assume body: "(if op_done operation then Some (Inr operation, i, waited)
      else case poll i of Inl e \<Rightarrow> Some (Inl e, Suc i, waited + 10000)
           | Inr operation' \<Rightarrow> f poll (Suc i) (waited + 10000) operation') = Some y"
  show "\<not> op_done operation \<longrightarrow> (\<exists>j. \<not> stillRunning (poll (i + j)))"
  proof
    assume nd: "\<not> op_done operation"
    show "\<exists>j. \<not> stillRunning (poll (i + j))"
    proof (cases "poll i")
      case (Inl e)
      then have "\<not> stillRunning (poll (i + 0))" by (simp add: stillRunning_def)
      then show ?thesis by blast
    next
      case (Inr o1)
      show ?thesis
      proof (cases "op_done o1")
        case True
        with Inr have "\<not> stillRunning (poll (i + 0))" by (simp add: stillRunning_def)
        then show ?thesis by blast
      next
        case False
        from body nd Inr have "f poll (Suc i) (waited + 10000) o1 = Some y" by simp
        from IH [OF this] False obtain j where "\<not> stillRunning (poll (Suc i + j))" by blast
        then have "\<not> stillRunning (poll (i + Suc j))" by simp
        then show ?thesis by blast
      qed
    qed
  qed
qed

text \<open>
  Claim C8. The loop waits 10000 ms before every poll and nothing else: it returns at
  once, without waiting, when the submitted operation is already done; otherwise, if the
  poll number \<open>n\<close> (counted from 0) is the first to throw or to return a done operation,
  it returns that poll's outcome after exactly \<open>n + 1\<close> polls and \<open>10000 * (n + 1)\<close> ms of
  waiting, for every \<open>n\<close>, so no attempt count or deadline bounds it; and it fails to
  return exactly when the operation is not done and no poll ever throws or reports done.
\<close>

theorem pollLoop_exits_exactly:
  "(op_done operation \<longrightarrow> pollLoop poll 0 0 operation = Some (Inr operation, 0, 0))
   \<and> (\<not> op_done operation \<longrightarrow>
        (\<forall>n. (\<forall>j<n. stillRunning (poll j)) \<and> \<not> stillRunning (poll n) \<longrightarrow>
            pollLoop poll 0 0 operation = Some (poll n, Suc n, 10000 * Suc n)))
   \<and> (pollLoop poll 0 0 operation = None
        \<longleftrightarrow> \<not> op_done operation \<and> (\<forall>j. stillRunning (poll j)))"
proof -
  have A: "op_done operation \<longrightarrow> pollLoop poll 0 0 operation = Some (Inr operation, 0, 0)"
    by (simp add: pollLoop_done)
  have B: "pollLoop poll 0 0 operation = Some (poll n, Suc n, 10000 * Suc n)"
    if "\<not> op_done operation" "\<forall>j<n. stillRunning (poll j)" "\<not> stillRunning (poll n)" for n
    using pollLoop_stops [of operation n poll 0 0] that by simp
  have C: "pollLoop poll 0 0 operation = None
        \<longleftrightarrow> \<not> op_done operation \<and> (\<forall>j. stillRunning (poll j))"
  proof
    assume none: "pollLoop poll 0 0 operation = None"
    have nd: "\<not> op_done operation"
    proof
      assume "op_done operation"
      with A none show False by simp
    qed
    have "\<forall>j. stillRunning (poll j)"
    proof (rule ccontr)
      assume "\<not> (\<forall>j. stillRunning (poll j))"
      then have "\<exists>n. \<not> stillRunning (poll n)" by blast
      then obtain n where "\<not> stillRunning (poll n)" "\<forall>m<n. \<not> \<not> stillRunning (poll m)"
        using exists_least_iff [of "\<lambda>n. \<not> stillRunning (poll n)"] by blast
      then have "pollLoop poll 0 0 operation = Some (poll n, Suc n, 10000 * Suc n)"
        using B [OF nd] by blast
      with none show False by simp
    qed
    with nd show "\<not> op_done operation \<and> (\<forall>j. stillRunning (poll j))" by blast
  next
    assume run: "\<not> op_done operation \<and> (\<forall>j. stillRunning (poll j))"
    show "pollLoop poll 0 0 operation = None"
    proof (cases "pollLoop poll 0 0 operation")
      case None
      then show ?thesis .
    next
      case (Some y)
      from pollLoop_returns_only_on_exit [OF Some] run show ?thesis by simp
    qed
  qed
  from A B C show ?thesis by blast
qed

theorem pollLoop_exits_exactly_witness:
  "pollLoop (\<lambda>i. if i < 2 then Inr runningOp else Inr emptyDoneOp) 0 0 runningOp
     = Some (Inr emptyDoneOp, 3, 30000)
   \<and> pollLoop (\<lambda>i. if i < 5 then Inr runningOp else Inl ''timeout'') 0 0 runningOp
     = Some (Inl ''timeout'', 6, 60000)
   \<and> pollLoop (\<lambda>i. Inr runningOp) 0 0 runningOp = None
   \<and> pollLoop (\<lambda>i. Inr runningOp) 0 0 emptyDoneOp = Some (Inr emptyDoneOp, 0, 0)"
proof -
  have nd: "\<not> op_done runningOp" by (simp add: runningOp_def)
  have d: "op_done emptyDoneOp" by (simp add: emptyDoneOp_def)
  have a: "pollLoop (\<lambda>i. if i < 2 then Inr runningOp else Inr emptyDoneOp) 0 0 runningOp
     = Some (Inr emptyDoneOp, 3, 30000)"
  proof -
    let ?p = "\<lambda>i::nat. if i < 2 then Inr runningOp else (Inr emptyDoneOp :: string + Operation)"
    have h1: "\<forall>j<2. stillRunning (?p j)" by (simp add: stillRunning_def nd)
    have h2: "\<not> stillRunning (?p 2)" by (simp add: stillRunning_def d)
    from pollLoop_exits_exactly [of runningOp ?p] nd
    have "\<forall>n. (\<forall>j<n. stillRunning (?p j)) \<and> \<not> stillRunning (?p n) \<longrightarrow>
            pollLoop ?p 0 0 runningOp = Some (?p n, Suc n, 10000 * Suc n)"
      by blast
    then have "(\<forall>j<2. stillRunning (?p j)) \<and> \<not> stillRunning (?p 2) \<longrightarrow>
            pollLoop ?p 0 0 runningOp = Some (?p 2, Suc 2, 10000 * Suc 2)"
      by (rule spec)
    with h1 h2 have "pollLoop ?p 0 0 runningOp = Some (?p 2, Suc 2, 10000 * Suc 2)"
      by blast
    then show ?thesis by simp
  qed
  have b: "pollLoop (\<lambda>i. if i < 5 then Inr runningOp else Inl ''timeout'') 0 0 runningOp
     = Some (Inl ''timeout'', 6, 60000)"
  proof -
    let ?p = "\<lambda>i::nat. if i < 5 then Inr runningOp else (Inl ''timeout'' :: string + Operation)"
    have h1: "\<forall>j<5. stillRunning (?p j)" by (simp add: stillRunning_def nd)
    have h2: "\<not> stillRunning (?p 5)" by (simp add: stillRunning_def)
    from pollLoop_exits_exactly [of runningOp ?p] nd
    have "\<forall>n. (\<forall>j<n. stillRunning (?p j)) \<and> \<not> stillRunning (?p n) \<longrightarrow>
            pollLoop ?p 0 0 runningOp = Some (?p n, Suc n, 10000 * Suc n)"
      by blast
    then have "(\<forall>j<5. stillRunning (?p j)) \<and> \<not> stillRunning (?p 5) \<longrightarrow>
            pollLoop ?p 0 0 runningOp = Some (?p 5, Suc 5, 10000 * Suc 5)"
      by (rule spec)
    with h1 h2 have "pollLoop ?p 0 0 runningOp = Some (?p 5, Suc 5, 10000 * Suc 5)"
      by blast
    then show ?thesis by simp
  qed
  have c: "pollLoop (\<lambda>i. Inr runningOp) 0 0 runningOp = None"
  proof -
    have h: "\<forall>j::nat. stillRunning (Inr runningOp)" by (simp add: stillRunning_def nd)
    from pollLoop_exits_exactly [of runningOp "\<lambda>i. Inr runningOp"] nd h
    show ?thesis by blast
  qed
  have e: "pollLoop (\<lambda>i. Inr runningOp) 0 0 emptyDoneOp = Some (Inr emptyDoneOp, 0, 0)"
    using pollLoop_exits_exactly [of emptyDoneOp "\<lambda>i. Inr runningOp"] d by blast
  from a b c e show ?thesis by blast
qed

section \<open>A finished job without a video\<close>






end
